theory Spec2Isabelle
  imports Main
begin

section \<open>JavaScript values and the built-ins the server relies on\<close>

text \<open>
  The server receives its requests as parsed JSON and answers with serialized JSON, so the
  values that flow through \<^verbatim>\<open>index.ts\<close> are JSON values. An object keeps its
  properties in insertion order, hence the association list. Strings are byte strings
  (UTF-8); the built-ins below only ever inspect characters of the ASCII range and copy
  every other one. Numbers are the integer-valued ones (the message identifier is one);
  a property that is not there reads as \<^verbatim>\<open>undefined\<close>, which is \<open>None\<close>.
\<close>

datatype json =
    JNull
  | JBool bool
  | JNumber int
  | JString string
  | JArray "json list"
  | JObject "(string \<times> json) list"

type_synonym jsval = "json option"

text \<open>Property access \<^verbatim>\<open>obj.key\<close> on an object.\<close>

definition property :: "(string \<times> json) list \<Rightarrow> string \<Rightarrow> jsval" where
  "property obj key = map_of obj key"

text \<open>\<^verbatim>\<open>Array.prototype.join\<close> on strings.\<close>

fun join :: "string \<Rightarrow> string list \<Rightarrow> string" where
  "join sep [] = []"
| "join sep [x] = x"
| "join sep (x # y # ys) = x @ sep @ join sep (y # ys)"

subsection \<open>Number to string\<close>

definition digit_char :: "nat \<Rightarrow> char" where
  "digit_char d = char_of (48 + d)"

fun digits_of :: "nat \<Rightarrow> string" where
  "digits_of n = (if n < 10 then [digit_char n] else digits_of (n div 10) @ [digit_char (n mod 10)])"

declare digits_of.simps [simp del]

text \<open>
  \<^verbatim>\<open>Number.prototype.toString()\<close> in radix 10 on an integer-valued number: a minus
  sign for a negative number, then the digits. (The engine switches to exponent notation
  from \<open>10^21\<close> on; the results about the digits are stated for safe integers.)
\<close>

definition Number_toString :: "int \<Rightarrow> string" where
  "Number_toString n = (if n < 0 then CHR ''-'' # digits_of (nat (- n)) else digits_of (nat n))"

definition MAX_SAFE_INTEGER :: int where
  "MAX_SAFE_INTEGER = 2 ^ 53 - 1"

definition isSafeInteger :: "int \<Rightarrow> bool" where
  "isSafeInteger n \<longleftrightarrow> - MAX_SAFE_INTEGER \<le> n \<and> n \<le> MAX_SAFE_INTEGER"

subsection \<open>Thrown values\<close>

text \<open>
  What a \<^verbatim>\<open>throw\<close> or a rejected promise carries: an instance of
  \<^verbatim>\<open>Error\<close> (or of a subclass such as \<^verbatim>\<open>TypeError\<close>) with its message,
  or a value that is not an \<^verbatim>\<open>Error\<close>. Everything this program and
  \<^verbatim>\<open>fetch\<close> throw is of the first kind; the second kind is there for the branch
  of the \<^verbatim>\<open>catch\<close> block that handles it, and carries a primitive value.
\<close>

datatype primitive = PUndefined | PNull | PBoolean bool | PNumber int | PString string

datatype thrown = Error string | NonError primitive

text \<open>\<^verbatim>\<open>String(v)\<close> on a primitive value.\<close>

fun String_js :: "primitive \<Rightarrow> string" where
  "String_js PUndefined = ''undefined''"
| "String_js PNull = ''null''"
| "String_js (PBoolean b) = (if b then ''true'' else ''false'')"
| "String_js (PNumber n) = Number_toString n"
| "String_js (PString s) = s"

subsection \<open>String conversion and truthiness\<close>

definition hasOwnProperty :: "(string \<times> json) list \<Rightarrow> string \<Rightarrow> bool" where
  "hasOwnProperty obj key \<longleftrightarrow> key \<in> set (map fst obj)"

text \<open>
  \<^verbatim>\<open>ToString\<close> of a value other than \<^verbatim>\<open>undefined\<close>. An array joins its elements
  with a comma, rendering \<^verbatim>\<open>null\<close> as the empty string. A plain object is
  \<^verbatim>\<open>[object Object]\<close> through \<^verbatim>\<open>Object.prototype.toString\<close>; an own property
  \<^verbatim>\<open>toString\<close> hides that method, and since no JSON value is callable the conversion
  ends in a \<^verbatim>\<open>TypeError\<close> (the message is the one of the V8 engine).
\<close>

fun ToString :: "json \<Rightarrow> thrown + string"
  and ToString_elements :: "json list \<Rightarrow> thrown + string list" where
  "ToString JNull = Inr ''null''"
| "ToString (JBool b) = Inr (if b then ''true'' else ''false'')"
| "ToString (JNumber n) = Inr (Number_toString n)"
| "ToString (JString s) = Inr s"
| "ToString (JArray xs) =
     (case ToString_elements xs of Inl e \<Rightarrow> Inl e | Inr ss \<Rightarrow> Inr (join '','' ss))"
| "ToString (JObject kvs) =
     (if hasOwnProperty kvs ''toString''
      then Inl (Error ''Cannot convert object to primitive value'')
      else Inr ''[object Object]'')"
| "ToString_elements [] = Inr []"
| "ToString_elements (x # xs) =
     (case (if x = JNull then Inr [] else ToString x) of
        Inl e \<Rightarrow> Inl e
      | Inr s \<Rightarrow> (case ToString_elements xs of Inl e \<Rightarrow> Inl e | Inr ss \<Rightarrow> Inr (s # ss)))"

text \<open>The conversion of a property value where the platform wants a string.\<close>

definition ToString_jsval :: "jsval \<Rightarrow> thrown + string" where
  "ToString_jsval v = (case v of None \<Rightarrow> Inr ''undefined'' | Some j \<Rightarrow> ToString j)"

text \<open>
  The method call \<^verbatim>\<open>v.toString()\<close>, with \<open>expr\<close> the source text of the receiver for
  the engine's message: reading a property of \<^verbatim>\<open>undefined\<close> or \<^verbatim>\<open>null\<close> throws,
  and so does calling an own property \<^verbatim>\<open>toString\<close> of a JSON object.
\<close>

definition toString_method :: "string \<Rightarrow> jsval \<Rightarrow> thrown + string" where
  "toString_method expr v =
     (case v of
        None \<Rightarrow> Inl (Error (''Cannot read properties of undefined (reading '' @ [CHR 0x27] @ ''toString'' @ [CHR 0x27] @ '')''))
      | Some JNull \<Rightarrow> Inl (Error (''Cannot read properties of null (reading '' @ [CHR 0x27] @ ''toString'' @ [CHR 0x27] @ '')''))
      | Some (JObject kvs) \<Rightarrow>
          (if hasOwnProperty kvs ''toString''
           then Inl (Error (expr @ ''.toString is not a function''))
           else Inr ''[object Object]'')
      | Some j \<Rightarrow> ToString j)"

text \<open>The test \<^verbatim>\<open>if (v)\<close>.\<close>

fun truthy :: "jsval \<Rightarrow> bool" where
  "truthy None = False"
| "truthy (Some JNull) = False"
| "truthy (Some (JBool b)) = b"
| "truthy (Some (JNumber n)) = (n \<noteq> 0)"
| "truthy (Some (JString s)) = (s \<noteq> [])"
| "truthy (Some (JArray xs)) = True"
| "truthy (Some (JObject kvs)) = True"

subsection \<open>\<^verbatim>\<open>JSON.stringify\<close>\<close>

definition hex_digit :: "nat \<Rightarrow> char" where
  "hex_digit d = (if d < 10 then char_of (48 + d) else char_of (87 + d))"

text \<open>
  The escapes of \<^verbatim>\<open>QuoteJSONString\<close>: the double quote, the backslash, the five
  short control escapes, \<^verbatim>\<open>\u00xx\<close> for the other control characters, and every
  other character as it is.
\<close>

definition escape_char :: "char \<Rightarrow> string" where
  "escape_char c =
     (if c = CHR 0x22 then [CHR 0x5C, CHR 0x22]
      else if c = CHR 0x5C then [CHR 0x5C, CHR 0x5C]
      else if c = CHR 0x08 then [CHR 0x5C, CHR ''b'']
      else if c = CHR 0x0C then [CHR 0x5C, CHR ''f'']
      else if c = CHR 0x0A then [CHR 0x5C, CHR ''n'']
      else if c = CHR 0x0D then [CHR 0x5C, CHR ''r'']
      else if c = CHR 0x09 then [CHR 0x5C, CHR ''t'']
      else if (of_char c :: nat) < 32 then
        [CHR 0x5C, CHR ''u'', CHR ''0'', CHR ''0'',
         hex_digit ((of_char c :: nat) div 16), hex_digit ((of_char c :: nat) mod 16)]
      else [c])"

definition QuoteJSONString :: "string \<Rightarrow> string" where
  "QuoteJSONString s = CHR 0x22 # concat (map escape_char s) @ [CHR 0x22]"

fun JSON_stringify :: "json \<Rightarrow> string" where
  "JSON_stringify JNull = ''null''"
| "JSON_stringify (JBool b) = (if b then ''true'' else ''false'')"
| "JSON_stringify (JNumber n) = Number_toString n"
| "JSON_stringify (JString s) = QuoteJSONString s"
| "JSON_stringify (JArray xs) = ''['' @ join '','' (map JSON_stringify xs) @ '']''"
| "JSON_stringify (JObject kvs) =
     ''{'' @ join '','' (map (\<lambda>kv. QuoteJSONString (fst kv) @ '':'' @ JSON_stringify (snd kv)) kvs) @ ''}''"

text \<open>
  \<^verbatim>\<open>JSON.stringify\<close> of an object literal whose property values may be
  \<^verbatim>\<open>undefined\<close>: such a property is left out.
\<close>

definition JSON_stringify_object :: "(string \<times> jsval) list \<Rightarrow> string" where
  "JSON_stringify_object kvs =
     JSON_stringify (JObject (concat (map (\<lambda>kv. case snd kv of None \<Rightarrow> [] | Some v \<Rightarrow> [(fst kv, v)]) kvs)))"

section \<open>The API client\<close>

text \<open>
  \<^verbatim>\<open>URLSearchParams\<close> is an ordered list of name-value pairs of strings. The constructor
  takes the own properties of its argument in order and converts each value to a string;
  \<^verbatim>\<open>append\<close> adds a pair at the end.
\<close>

type_synonym URLSearchParams = "(string \<times> string) list"

fun URLSearchParams_new :: "(string \<times> jsval) list \<Rightarrow> thrown + URLSearchParams" where
  "URLSearchParams_new [] = Inr []"
| "URLSearchParams_new ((k, v) # init) =
     (case ToString_jsval v of
        Inl e \<Rightarrow> Inl e
      | Inr s \<Rightarrow> (case URLSearchParams_new init of Inl e \<Rightarrow> Inl e | Inr ps \<Rightarrow> Inr ((k, s) # ps)))"

definition params_append :: "URLSearchParams \<Rightarrow> string \<Rightarrow> string \<Rightarrow> URLSearchParams" where
  "params_append ps k v = ps @ [(k, v)]"

text \<open>
  The network is a parameter: \<^verbatim>\<open>fetch(url, {method, body})\<close> rejects or resolves to a
  response, and \<^verbatim>\<open>response.json()\<close> rejects or resolves to the parsed body.
\<close>

record RequestInit =
  "method" :: string
  body :: URLSearchParams

record Response =
  json :: "thrown + json"

type_synonym fetch = "string \<Rightarrow> RequestInit \<Rightarrow> thrown + Response"

record TelegramClient =
  baseUrl :: string

definition TelegramClient_new :: "string \<Rightarrow> TelegramClient" where
  "TelegramClient_new botToken = \<lparr>baseUrl = ''https://api.telegram.org/bot'' @ botToken\<rparr>"

text \<open>The form payload of \<^verbatim>\<open>sendMessage\<close>, as it stands when \<^verbatim>\<open>fetch\<close> is called.\<close>

definition sendMessage_params :: "jsval \<Rightarrow> jsval \<Rightarrow> jsval \<Rightarrow> thrown + URLSearchParams" where
  "sendMessage_params chat_id text parseMode =
     (case URLSearchParams_new [(''chat_id'', chat_id), (''text'', text)] of
        Inl e \<Rightarrow> Inl e
      | Inr params \<Rightarrow>
          (if truthy parseMode then
             (case ToString_jsval parseMode of
                Inl e \<Rightarrow> Inl e
              | Inr s \<Rightarrow> Inr (params_append params ''parse_mode'' s))
           else Inr params))"

definition post :: "fetch \<Rightarrow> string \<Rightarrow> URLSearchParams \<Rightarrow> thrown + json" where
  "post fetch url params =
     (case fetch url \<lparr>method = ''POST'', body = params\<rparr> of
        Inl e \<Rightarrow> Inl e
      | Inr response \<Rightarrow> json response)"

definition sendMessage :: "fetch \<Rightarrow> TelegramClient \<Rightarrow> jsval \<Rightarrow> jsval \<Rightarrow> jsval \<Rightarrow> thrown + json" where
  "sendMessage fetch this chat_id text parseMode =
     (case sendMessage_params chat_id text parseMode of
        Inl e \<Rightarrow> Inl e
      | Inr params \<Rightarrow> post fetch (baseUrl this @ ''/sendMessage'') params)"

text \<open>The form payload of \<^verbatim>\<open>setMessageReaction\<close>.\<close>

definition setMessageReaction_params :: "jsval \<Rightarrow> jsval \<Rightarrow> jsval \<Rightarrow> jsval \<Rightarrow> thrown + URLSearchParams" where
  "setMessageReaction_params chat_id message_id reaction is_big =
     (case toString_method ''message_id'' message_id of
        Inl e \<Rightarrow> Inl e
      | Inr mid \<Rightarrow>
          (case URLSearchParams_new [(''chat_id'', chat_id), (''message_id'', Some (JString mid))] of
             Inl e \<Rightarrow> Inl e
           | Inr params \<Rightarrow>
               (let params = (if truthy reaction
                              then params_append params ''reaction'' (JSON_stringify_object [(''reaction'', reaction)])
                              else params);
                    params = (if truthy is_big
                              then params_append params ''is_big'' (if truthy is_big then ''True'' else ''False'')
                              else params)
                in Inr params)))"

definition setMessageReaction :: "fetch \<Rightarrow> TelegramClient \<Rightarrow> jsval \<Rightarrow> jsval \<Rightarrow> jsval \<Rightarrow> jsval \<Rightarrow> thrown + json" where
  "setMessageReaction fetch this chat_id message_id reaction is_big =
     (case setMessageReaction_params chat_id message_id reaction is_big of
        Inl e \<Rightarrow> Inl e
      | Inr params \<Rightarrow> post fetch (baseUrl this @ ''/setMessageReaction'') params)"

section \<open>The request handlers\<close>

record request_params =
  name :: string
  arguments :: "(string \<times> json) list option"

record CallToolRequest =
  params :: request_params

record content_block =
  type :: string
  "text" :: string

record CallToolResult =
  content :: "content_block list"

text \<open>The body of the \<^verbatim>\<open>try\<close> block: \<open>Inl\<close> is a thrown value, \<open>Inr\<close> a \<^verbatim>\<open>return\<close>.\<close>

definition call_tool_try :: "fetch \<Rightarrow> TelegramClient \<Rightarrow> CallToolRequest \<Rightarrow> thrown + CallToolResult" where
  "call_tool_try fetch telegramClient request =
     (case arguments (params request) of
        None \<Rightarrow> Inl (Error ''No arguments provided'')
      | Some args \<Rightarrow>
          (if name (params request) = ''telegram_send_message'' then
             (case sendMessage fetch telegramClient
                     (property args ''chat_id'') (property args ''text'') (property args ''parse_mode'') of
                Inl e \<Rightarrow> Inl e
              | Inr response \<Rightarrow>
                  Inr \<lparr>content = [\<lparr>type = ''text'', text = JSON_stringify response\<rparr>]\<rparr>)
           else if name (params request) = ''telegram_set_message_reaction'' then
             (case setMessageReaction fetch telegramClient
                     (property args ''chat_id'') (property args ''message_id'')
                     (property args ''reaction'') (property args ''is_big'') of
                Inl e \<Rightarrow> Inl e
              | Inr response \<Rightarrow>
                  Inr \<lparr>content = [\<lparr>type = ''text'', text = JSON_stringify response\<rparr>]\<rparr>)
           else Inl (Error (''Unknown Telegram tool: '' @ name (params request)))))"

text \<open>The \<^verbatim>\<open>catch\<close> block.\<close>

definition error_message :: "thrown \<Rightarrow> string" where
  "error_message error = (case error of Error message \<Rightarrow> message | NonError v \<Rightarrow> String_js v)"

definition call_tool_catch :: "thrown \<Rightarrow> CallToolResult" where
  "call_tool_catch error =
     \<lparr>content = [\<lparr>type = ''text'', text = JSON_stringify (JObject [(''error'', JString (error_message error))])\<rparr>]\<rparr>"

text \<open>
  The handler registered for \<^verbatim>\<open>CallToolRequestSchema\<close>. \<open>Inl\<close> is a rejection of the
  promise it returns, that is, an exception that escapes the handler.
\<close>

definition call_tool_handler :: "fetch \<Rightarrow> TelegramClient \<Rightarrow> CallToolRequest \<Rightarrow> thrown + CallToolResult" where
  "call_tool_handler fetch telegramClient request =
     (case call_tool_try fetch telegramClient request of
        Inr result \<Rightarrow> Inr result
      | Inl error \<Rightarrow> Inr (call_tool_catch error))"

text \<open>
  The tool descriptors are object literals, and so JSON values. The list
  \<^verbatim>\<open>REACTION_EMOJIS\<close> is imported from \<^verbatim>\<open>./types.js\<close> and is a parameter here.
\<close>

definition sendMessageTool :: json where
  "sendMessageTool =
     JObject
      [(''name'', JString ''telegram_send_message''),
       (''description'', JString ''Sends a text message''),
       (''inputSchema'', JObject
         [(''type'', JString ''object''),
          (''properties'', JObject
            [(''chat_id'', JObject
               [(''type'', JString ''string''),
                (''required'', JBool True),
                (''description'', JString
                  ''Unique identifier for the target chat or username of the target channel (in the format @channelusername)'')]),
             (''text'', JObject
               [(''type'', JString ''string''),
                (''description'', JString ''Text of the message to be sent'')]),
             (''parse_mode'', JObject
               [(''type'', JString ''string''),
                (''description'', JString ''Mode for parsing entities in the message text''),
                (''enum'', JArray [JString ''MarkdownV2 '', JString ''HTML''])])]),
          (''required'', JArray [JString ''chat_id'', JString ''text''])])]"

definition setMessageReactionTool :: "string list \<Rightarrow> json" where
  "setMessageReactionTool REACTION_EMOJIS =
     JObject
      [(''name'', JString ''telegram_set_message_reaction''),
       (''description'', JString ''Sets or updates a reaction to a message''),
       (''inputSchema'', JObject
         [(''type'', JString ''object''),
          (''properties'', JObject
            [(''chat_id'', JObject
               [(''type'', JString ''string''),
                (''description'', JString
                  ''Unique identifier for the target chat or username of the target channel (in the format @channelusername)'')]),
             (''message_id'', JObject
               [(''type'', JString ''number''),
                (''description'', JString ''Identifier of the target message'')]),
             (''reaction'', JObject
               [(''type'', JString ''object''),
                (''properties'', JObject
                  [(''type'', JObject
                     [(''type'', JString ''string''),
                      (''enum'', JArray [JString ''emoji''])]),
                   (''emoji'', JObject
                     [(''type'', JString ''string''),
                      (''enum'', JArray (map JString REACTION_EMOJIS))])]),
                (''description'', JString ''Reaction to set'')]),
             (''is_big'', JObject
               [(''type'', JString ''boolean''),
                (''description'', JString ''Pass `true` to set the reaction with a big animation'')])]),
          (''required'', JArray [JString ''chat_id'', JString ''message_id''])])]"

record ListToolsResult =
  tools :: "json list"

text \<open>The handler registered for \<^verbatim>\<open>ListToolsRequestSchema\<close>.\<close>

definition list_tools_handler :: "string list \<Rightarrow> ListToolsResult" where
  "list_tools_handler REACTION_EMOJIS =
     \<lparr>tools = [sendMessageTool, setMessageReactionTool REACTION_EMOJIS]\<rparr>"

text \<open>Reading a descriptor: a property of a value, and a path of properties.\<close>

fun get :: "jsval \<Rightarrow> string \<Rightarrow> jsval" where
  "get (Some (JObject kvs)) key = property kvs key"
| "get _ key = None"

definition at_path :: "json \<Rightarrow> string list \<Rightarrow> jsval" where
  "at_path j path = foldl get (Some j) path"

text \<open>
  The argument types the two tools are cast to, \<^verbatim>\<open>SendMessageArguments\<close> and
  \<^verbatim>\<open>SetMessageReactionArguments\<close> with \<^verbatim>\<open>ReactionTypeEmoji\<close>, as predicates
  on the argument bag. The message identifier is a safe integer.
\<close>

definition parse_modes :: "string list" where
  "parse_modes = [''MarkdownV2'', ''HTML'']"

definition is_string :: "jsval \<Rightarrow> bool" where
  "is_string v = (case v of Some (JString s) \<Rightarrow> True | _ \<Rightarrow> False)"

definition is_parse_mode :: "jsval \<Rightarrow> bool" where
  "is_parse_mode v = (case v of None \<Rightarrow> True | Some (JString s) \<Rightarrow> s \<in> set parse_modes | _ \<Rightarrow> False)"

definition is_message_id :: "jsval \<Rightarrow> bool" where
  "is_message_id v = (case v of Some (JNumber n) \<Rightarrow> isSafeInteger n | _ \<Rightarrow> False)"

definition is_ReactionTypeEmoji :: "string list \<Rightarrow> jsval \<Rightarrow> bool" where
  "is_ReactionTypeEmoji REACTION_EMOJIS v =
     (case v of
        None \<Rightarrow> True
      | Some (JObject kvs) \<Rightarrow>
          property kvs ''type'' = Some (JString ''emoji'') \<and>
          (case property kvs ''emoji'' of Some (JString e) \<Rightarrow> e \<in> set REACTION_EMOJIS | _ \<Rightarrow> False)
      | _ \<Rightarrow> False)"

definition is_optional_boolean :: "jsval \<Rightarrow> bool" where
  "is_optional_boolean v = (case v of None \<Rightarrow> True | Some (JBool b) \<Rightarrow> True | _ \<Rightarrow> False)"

definition is_SendMessageArguments :: "(string \<times> json) list \<Rightarrow> bool" where
  "is_SendMessageArguments args \<longleftrightarrow>
     is_string (property args ''chat_id'') \<and> is_string (property args ''text'') \<and>
     is_parse_mode (property args ''parse_mode'')"

definition is_SetMessageReactionArguments :: "string list \<Rightarrow> (string \<times> json) list \<Rightarrow> bool" where
  "is_SetMessageReactionArguments REACTION_EMOJIS args \<longleftrightarrow>
     is_string (property args ''chat_id'') \<and> is_message_id (property args ''message_id'') \<and>
     is_ReactionTypeEmoji REACTION_EMOJIS (property args ''reaction'') \<and>
     is_optional_boolean (property args ''is_big'')"

text \<open>
  Reading a decimal numeral: an optional minus sign, then one or more digits. This is the
  decimal string form the specification speaks of, to compare \<open>Number_toString\<close> with.
\<close>

definition digit_value :: "char \<Rightarrow> nat option" where
  "digit_value c =
     (if (48::nat) \<le> of_char c \<and> (of_char c :: nat) \<le> 57 then Some (of_char c - 48) else None)"

fun read_digits :: "nat \<Rightarrow> string \<Rightarrow> nat option" where
  "read_digits acc [] = Some acc"
| "read_digits acc (c # cs) =
     (case digit_value c of None \<Rightarrow> None | Some d \<Rightarrow> read_digits (10 * acc + d) cs)"

definition decimal_read :: "string \<Rightarrow> int option" where
  "decimal_read s =
     (case s of
        [] \<Rightarrow> None
      | c # cs \<Rightarrow>
          (if c = CHR ''-''
           then (if cs = [] then None else map_option (\<lambda>n. - int n) (read_digits 0 cs))
           else map_option int (read_digits 0 s)))"

text \<open>
  Two concrete values for the examples: a network on which every request fails, and the
  request that sends \<^verbatim>\<open>hi\<close> to \<^verbatim>\<open>@chan\<close>.
\<close>

definition failing_fetch :: fetch where
  "failing_fetch url init = Inl (Error ''fetch failed'')"

definition send_hi :: CallToolRequest where
  "send_hi = \<lparr>params = \<lparr>name = ''telegram_send_message'',
       arguments = Some [(''chat_id'', JString ''@chan''), (''text'', JString ''hi'')]\<rparr>\<rparr>"

text \<open>The thumbs-up emoji, in UTF-8.\<close>

definition thumbs_up :: string where
  "thumbs_up = [CHR 0xF0, CHR 0x9F, CHR 0x91, CHR 0x8D]"

section \<open>Decimal numerals\<close>

text \<open>Reading back what \<open>Number_toString\<close> writes gives the number.\<close>

lemma digit_value_digit_char: "d < 10 \<Longrightarrow> digit_value (digit_char d) = Some d"
  by (simp add: digit_value_def digit_char_def)

lemma digit_char_not_minus: "d < 10 \<Longrightarrow> digit_char d \<noteq> CHR ''-''"
  by (auto simp add: digit_char_def dest!: arg_cong [where f = "of_char :: char \<Rightarrow> nat"])

lemma read_digits_snoc:
  "read_digits acc (cs @ [c]) =
     (case read_digits acc cs of
        None \<Rightarrow> None
      | Some m \<Rightarrow> (case digit_value c of None \<Rightarrow> None | Some d \<Rightarrow> Some (10 * m + d)))"
  by (induction cs arbitrary: acc) (auto split: option.splits)

lemma read_digits_digits_of: "read_digits 0 (digits_of n) = Some n"
proof (induction n rule: digits_of.induct)
  case (1 n)
  show ?case
  proof (cases "n < 10")
    case True
    then show ?thesis
      by (simp add: digits_of.simps [of n] digit_value_digit_char)
  next
    case False
    with 1 have "read_digits 0 (digits_of (n div 10)) = Some (n div 10)" by simp
    with False show ?thesis
      by (simp add: digits_of.simps [of n] read_digits_snoc digit_value_digit_char)
  qed
qed

lemma digits_of_not_Nil: "digits_of n \<noteq> []"
  by (simp add: digits_of.simps [of n])

lemma hd_digits_of: "hd (digits_of n) \<noteq> CHR ''-''"
proof (induction n rule: digits_of.induct)
  case (1 n)
  show ?case
  proof (cases "n < 10")
    case True
    then show ?thesis by (simp add: digits_of.simps [of n] digit_char_not_minus)
  next
    case False
    with 1 have "hd (digits_of (n div 10)) \<noteq> CHR ''-''" by simp
    with False show ?thesis
      by (simp add: digits_of.simps [of n] digits_of_not_Nil)
  qed
qed

lemma decimal_read_Number_toString: "decimal_read (Number_toString n) = Some n"
proof (cases "n < 0")
  case True
  then show ?thesis
    by (simp add: decimal_read_def Number_toString_def digits_of_not_Nil read_digits_digits_of)
next
  case False
  obtain c cs where cs: "digits_of (nat n) = c # cs"
    using digits_of_not_Nil [of "nat n"] by (cases "digits_of (nat n)") auto
  with hd_digits_of [of "nat n"] have "c \<noteq> CHR ''-''" by simp
  with False cs read_digits_digits_of [of "nat n"] show ?thesis
    by (simp add: decimal_read_def Number_toString_def)
qed


section \<open>The call-tool handler\<close>

lemma call_tool_handler_Inl:
  "call_tool_try fetch c request = Inl error \<Longrightarrow>
   call_tool_handler fetch c request = Inr (call_tool_catch error)"
  by (simp add: call_tool_handler_def)

lemma call_tool_handler_Inr:
  "call_tool_try fetch c request = Inr result \<Longrightarrow>
   call_tool_handler fetch c request = Inr result"
  by (simp add: call_tool_handler_def)

lemma call_tool_try_no_arguments:
  "arguments (params request) = None \<Longrightarrow>
   call_tool_try fetch c request = Inl (Error ''No arguments provided'')"
  by (simp add: call_tool_try_def)

lemma call_tool_try_unknown:
  "arguments (params request) = Some args \<Longrightarrow>
   name (params request) \<noteq> ''telegram_send_message'' \<Longrightarrow>
   name (params request) \<noteq> ''telegram_set_message_reaction'' \<Longrightarrow>
   call_tool_try fetch c request = Inl (Error (''Unknown Telegram tool: '' @ name (params request)))"
  by (simp add: call_tool_try_def)

lemma post_fetch_rejects:
  "fetch url \<lparr>method = ''POST'', body = ps\<rparr> = Inl e \<Longrightarrow> post fetch url ps = Inl e"
  by (simp add: post_def)

lemma post_json_rejects:
  "fetch url \<lparr>method = ''POST'', body = ps\<rparr> = Inr response \<Longrightarrow> json response = Inl e \<Longrightarrow>
   post fetch url ps = Inl e"
  by (simp add: post_def)

lemma call_tool_try_sendMessage_throws:
  "arguments (params request) = Some args \<Longrightarrow>
   name (params request) = ''telegram_send_message'' \<Longrightarrow>
   sendMessage fetch c (property args ''chat_id'') (property args ''text'')
     (property args ''parse_mode'') = Inl e \<Longrightarrow>
   call_tool_try fetch c request = Inl e"
  by (simp add: call_tool_try_def)

lemma call_tool_try_setMessageReaction_throws:
  "arguments (params request) = Some args \<Longrightarrow>
   name (params request) = ''telegram_set_message_reaction'' \<Longrightarrow>
   setMessageReaction fetch c (property args ''chat_id'') (property args ''message_id'')
     (property args ''reaction'') (property args ''is_big'') = Inl e \<Longrightarrow>
   call_tool_try fetch c request = Inl e"
  by (simp add: call_tool_try_def)

lemma post_Inr:
  "post fetch url ps = Inr j \<Longrightarrow>
   \<exists>response. fetch url \<lparr>method = ''POST'', body = ps\<rparr> = Inr response \<and> json response = Inr j"
  by (auto simp add: post_def split: sum.splits)

lemma call_tool_try_Inr:
  assumes "call_tool_try fetch c request = Inr result"
  shows "\<exists>url init response j.
           fetch url init = Inr response \<and> json response = Inr j \<and>
           result = \<lparr>content = [\<lparr>type = ''text'', text = JSON_stringify j\<rparr>]\<rparr>"
proof -
  from assms obtain args where args: "arguments (params request) = Some args"
    by (cases "arguments (params request)") (auto simp add: call_tool_try_def)
  consider (send) "name (params request) = ''telegram_send_message''"
    | (react) "name (params request) \<noteq> ''telegram_send_message''"
        "name (params request) = ''telegram_set_message_reaction''"
    | (other) "name (params request) \<noteq> ''telegram_send_message''"
        "name (params request) \<noteq> ''telegram_set_message_reaction''"
    by blast
  then show ?thesis
  proof cases
    case send
    with assms args obtain j where
      j: "sendMessage fetch c (property args ''chat_id'') (property args ''text'')
            (property args ''parse_mode'') = Inr j"
      and r: "result = \<lparr>content = [\<lparr>type = ''text'', text = JSON_stringify j\<rparr>]\<rparr>"
      by (auto simp add: call_tool_try_def split: sum.splits)
    from j obtain ps where "post fetch (baseUrl c @ ''/sendMessage'') ps = Inr j"
      by (auto simp add: sendMessage_def split: sum.splits)
    from post_Inr [OF this] r show ?thesis by blast
  next
    case react
    with assms args obtain j where
      j: "setMessageReaction fetch c (property args ''chat_id'') (property args ''message_id'')
            (property args ''reaction'') (property args ''is_big'') = Inr j"
      and r: "result = \<lparr>content = [\<lparr>type = ''text'', text = JSON_stringify j\<rparr>]\<rparr>"
      by (auto simp add: call_tool_try_def split: sum.splits)
    from j obtain ps where "post fetch (baseUrl c @ ''/setMessageReaction'') ps = Inr j"
      by (auto simp add: setMessageReaction_def split: sum.splits)
    from post_Inr [OF this] r show ?thesis by blast
  next
    case other
    with assms args show ?thesis by (simp add: call_tool_try_def)
  qed
qed

text \<open>
  Claim C1. Whatever the body of the \<^verbatim>\<open>try\<close> block throws (the missing-arguments
  error, the unknown-tool error, an error of the API client), the handler returns: its
  result is the one text block holding the serialization of \<^verbatim>\<open>{error: message}\<close>,
  where the message is that of the \<^verbatim>\<open>Error\<close>, or the thrown value as a string.
  Nothing is rethrown, so the process goes on.
\<close>

theorem call_tool_errors_are_caught:
  assumes "call_tool_try fetch c request = Inl error"
  shows "call_tool_handler fetch c request =
           Inr \<lparr>content = [\<lparr>type = ''text'',
                  text = JSON_stringify (JObject [(''error'', JString (error_message error))])\<rparr>]\<rparr>
         \<and> error_message (Error m) = m \<and> error_message (NonError v) = String_js v"
  using assms by (simp add: call_tool_handler_def call_tool_catch_def error_message_def)

lemma send_hi_fails:
  "call_tool_try failing_fetch (TelegramClient_new ''t'') send_hi = Inl (Error ''fetch failed'')"
  by (simp add: call_tool_try_def send_hi_def sendMessage_def sendMessage_params_def property_def
      ToString_jsval_def post_def failing_fetch_def)

theorem call_tool_errors_are_caught_witness:
  \<open>call_tool_try failing_fetch (TelegramClient_new ''t'') send_hi = Inl (Error ''fetch failed'') \<and>
   call_tool_handler failing_fetch (TelegramClient_new ''t'') send_hi =
     Inr \<lparr>content = [\<lparr>type = ''text'', text = ''{"error":"fetch failed"}''\<rparr>]\<rparr>\<close>
  using call_tool_errors_are_caught [OF send_hi_fails]
  by (simp add: send_hi_fails error_message_def QuoteJSONString_def escape_char_def)

text \<open>
  Claim C2. With arguments present and a name that is neither of the two tools, the
  handler returns the one text block that serializes
  \<^verbatim>\<open>{"error": "Unknown Telegram tool: <name>"}\<close>, and no exception escapes.
\<close>

theorem unknown_tool_envelope:
  assumes "arguments (params request) = Some args"
    and "name (params request) \<noteq> ''telegram_send_message''"
    and "name (params request) \<noteq> ''telegram_set_message_reaction''"
  shows "call_tool_handler fetch c request =
           Inr \<lparr>content = [\<lparr>type = ''text'',
                  text = JSON_stringify (JObject
                    [(''error'', JString (''Unknown Telegram tool: '' @ name (params request)))])\<rparr>]\<rparr>"
  using call_tool_try_unknown [OF assms]
  by (simp add: call_tool_handler_def call_tool_catch_def error_message_def)

theorem unknown_tool_envelope_witness:
  \<open>call_tool_handler failing_fetch (TelegramClient_new ''t'')
      \<lparr>params = \<lparr>name = ''telegram_delete'', arguments = Some []\<rparr>\<rparr> =
     Inr \<lparr>content = [\<lparr>type = ''text'', text = ''{"error":"Unknown Telegram tool: telegram_delete"}''\<rparr>]\<rparr>\<close>
  using unknown_tool_envelope [of "\<lparr>params = \<lparr>name = ''telegram_delete'', arguments = Some []\<rparr>\<rparr>" "[]"
      failing_fetch "TelegramClient_new ''t''"]
  by (simp add: QuoteJSONString_def escape_char_def)


text \<open>
  Claim C3. A request without arguments is answered with the one text block
  \<^verbatim>\<open>{"error":"No arguments provided"}\<close>; the handler returns normally.
\<close>

theorem no_arguments_envelope:
  assumes "arguments (params request) = None"
  shows \<open>call_tool_handler fetch c request =
           Inr \<lparr>content = [\<lparr>type = ''text'', text = ''{"error":"No arguments provided"}''\<rparr>]\<rparr>
         \<and> ''{"error":"No arguments provided"}'' =
             JSON_stringify (JObject [(''error'', JString ''No arguments provided'')])\<close>
  using call_tool_try_no_arguments [OF assms, of fetch c]
  by (simp add: call_tool_handler_def call_tool_catch_def error_message_def
      QuoteJSONString_def escape_char_def)

theorem no_arguments_envelope_witness:
  \<open>call_tool_handler failing_fetch (TelegramClient_new ''t'')
      \<lparr>params = \<lparr>name = ''telegram_send_message'', arguments = None\<rparr>\<rparr> =
     Inr \<lparr>content = [\<lparr>type = ''text'', text = ''{"error":"No arguments provided"}''\<rparr>]\<rparr>\<close>
  using no_arguments_envelope [of "\<lparr>params = \<lparr>name = ''telegram_send_message'', arguments = None\<rparr>\<rparr>"
      failing_fetch "TelegramClient_new ''t''"]
  by simp

text \<open>
  Claim C9. The check for arguments comes before the dispatch on the name: without
  arguments the answer is the missing-arguments envelope whatever the name is, and it is
  never the unknown-tool envelope.
\<close>

theorem arguments_check_precedes_dispatch:
  assumes "arguments (params request) = None"
  shows "call_tool_try fetch c request = Inl (Error ''No arguments provided'')
         \<and> call_tool_handler fetch c request = Inr (call_tool_catch (Error ''No arguments provided''))
         \<and> call_tool_handler fetch c request \<noteq>
             Inr (call_tool_catch (Error (''Unknown Telegram tool: '' @ name (params request))))
         \<and> (\<forall>n. call_tool_handler fetch c (request\<lparr>params := (params request)\<lparr>name := n\<rparr>\<rparr>) =
                  call_tool_handler fetch c request)"
proof -
  have t: "call_tool_try fetch c request = Inl (Error ''No arguments provided'')"
    by (rule call_tool_try_no_arguments [OF assms])
  have n: "call_tool_try fetch c (request\<lparr>params := (params request)\<lparr>name := n\<rparr>\<rparr>) =
             Inl (Error ''No arguments provided'')" for n
    using assms by (simp add: call_tool_try_def)
  have d: "call_tool_catch (Error ''No arguments provided'') \<noteq>
           call_tool_catch (Error (''Unknown Telegram tool: '' @ name (params request)))"
    by (simp add: call_tool_catch_def error_message_def QuoteJSONString_def escape_char_def)
  from t n d show ?thesis
    by (simp add: call_tool_handler_def)
qed

theorem arguments_check_precedes_dispatch_witness:
  \<open>call_tool_handler failing_fetch (TelegramClient_new ''t'')
      \<lparr>params = \<lparr>name = ''telegram_delete'', arguments = None\<rparr>\<rparr> =
     Inr \<lparr>content = [\<lparr>type = ''text'', text = ''{"error":"No arguments provided"}''\<rparr>]\<rparr>
   \<and> call_tool_handler failing_fetch (TelegramClient_new ''t'')
      \<lparr>params = \<lparr>name = ''telegram_delete'', arguments = None\<rparr>\<rparr> \<noteq>
     Inr \<lparr>content = [\<lparr>type = ''text'', text = ''{"error":"Unknown Telegram tool: telegram_delete"}''\<rparr>]\<rparr>\<close>
  using arguments_check_precedes_dispatch [of "\<lparr>params = \<lparr>name = ''telegram_delete'', arguments = None\<rparr>\<rparr>"
      failing_fetch "TelegramClient_new ''t''"]
  by (simp add: call_tool_catch_def error_message_def QuoteJSONString_def escape_char_def)

text \<open>
  Claim C8. Every call-tool request is answered with exactly one content block, of type
  \<^verbatim>\<open>text\<close>, whose text is the serialization either of the JSON body that the API
  answered with or of the error object made from what was thrown.
\<close>

theorem call_tool_result_shape:
  "\<exists>t. call_tool_handler fetch c request = Inr \<lparr>content = [\<lparr>type = ''text'', text = t\<rparr>]\<rparr> \<and>
        ((\<exists>url init response j.
            fetch url init = Inr response \<and> json response = Inr j \<and> t = JSON_stringify j) \<or>
         (\<exists>error.
            call_tool_try fetch c request = Inl error \<and>
            t = JSON_stringify (JObject [(''error'', JString (error_message error))])))"
proof (cases "call_tool_try fetch c request")
  case (Inl error)
  then show ?thesis
    by (simp add: call_tool_handler_def call_tool_catch_def)
next
  case (Inr result)
  from call_tool_try_Inr [OF this] obtain url init response j where
    "fetch url init = Inr response" "json response = Inr j"
    "result = \<lparr>content = [\<lparr>type = ''text'', text = JSON_stringify j\<rparr>]\<rparr>"
    by blast
  with Inr show ?thesis
    by (auto simp add: call_tool_handler_def)
qed


section \<open>The form payloads\<close>

lemma is_parse_mode_cases:
  "is_parse_mode v \<longleftrightarrow> v = None \<or> v = Some (JString ''MarkdownV2'') \<or> v = Some (JString ''HTML'')"
  by (auto simp add: is_parse_mode_def parse_modes_def split: option.splits json.splits)

text \<open>
  Claim C4. For a chat identifier and a text that are strings and a parse mode that is
  absent or one of the two modes, the payload that \<^verbatim>\<open>sendMessage\<close> posts has the
  keys \<^verbatim>\<open>chat_id\<close> and \<^verbatim>\<open>text\<close> with the given values, followed by
  \<^verbatim>\<open>parse_mode\<close> exactly when a parse mode was given. For \<^verbatim>\<open>@chan\<close> and
  \<^verbatim>\<open>hi\<close> without a parse mode it is the two pairs \<^verbatim>\<open>chat_id=@chan\<close>,
  \<^verbatim>\<open>text=hi\<close>.
\<close>

theorem sendMessage_payload:
  assumes "is_parse_mode parseMode"
  shows "(\<exists>ps. sendMessage_params (Some (JString chat_id)) (Some (JString msg)) parseMode = Inr ps
            \<and> sendMessage fetch c (Some (JString chat_id)) (Some (JString msg)) parseMode =
                post fetch (baseUrl c @ ''/sendMessage'') ps
            \<and> map fst ps = [''chat_id'', ''text''] @ (if parseMode = None then [] else [''parse_mode''])
            \<and> map_of ps ''chat_id'' = Some chat_id
            \<and> map_of ps ''text'' = Some msg
            \<and> (\<forall>p. parseMode = Some (JString p) \<longrightarrow> map_of ps ''parse_mode'' = Some p))
         \<and> sendMessage_params (Some (JString ''@chan'')) (Some (JString ''hi'')) None =
             Inr [(''chat_id'', ''@chan''), (''text'', ''hi'')]"
  using assms unfolding is_parse_mode_cases
  by (auto simp add: sendMessage_params_def sendMessage_def ToString_jsval_def params_append_def)

theorem sendMessage_payload_witness:
  "is_parse_mode (Some (JString ''HTML'')) \<and>
   sendMessage_params (Some (JString ''@chan'')) (Some (JString ''hi'')) (Some (JString ''HTML'')) =
     Inr [(''chat_id'', ''@chan''), (''text'', ''hi''), (''parse_mode'', ''HTML'')] \<and>
   sendMessage_params (Some (JString ''@chan'')) (Some (JString ''hi'')) None =
     Inr [(''chat_id'', ''@chan''), (''text'', ''hi'')]"
proof -
  have h: "is_parse_mode (Some (JString ''HTML''))"
    by (simp add: is_parse_mode_def parse_modes_def)
  from sendMessage_payload [OF h, of "''@chan''" "''hi''" failing_fetch "TelegramClient_new ''t''"]
  obtain ps where
    ps: "sendMessage_params (Some (JString ''@chan'')) (Some (JString ''hi'')) (Some (JString ''HTML'')) = Inr ps"
    and none: "sendMessage_params (Some (JString ''@chan'')) (Some (JString ''hi'')) None =
       Inr [(''chat_id'', ''@chan''), (''text'', ''hi'')]"
    by blast
  have "sendMessage_params (Some (JString ''@chan'')) (Some (JString ''hi'')) (Some (JString ''HTML'')) =
     Inr [(''chat_id'', ''@chan''), (''text'', ''hi''), (''parse_mode'', ''HTML'')]"
    by (simp add: sendMessage_params_def ToString_jsval_def params_append_def)
  with h none show ?thesis by simp
qed

lemma is_ReactionTypeEmoji_cases:
  "is_ReactionTypeEmoji E reaction \<Longrightarrow> reaction = None \<or> (\<exists>kvs. reaction = Some (JObject kvs))"
  by (auto simp add: is_ReactionTypeEmoji_def split: option.splits json.splits)

text \<open>
  Claim C5. For a chat identifier that is a string, a message identifier that is a safe
  integer and a reaction that is absent or an emoji reaction object, the payload that
  \<^verbatim>\<open>setMessageReaction\<close> posts carries \<^verbatim>\<open>message_id\<close> as the decimal numeral
  of the identifier (reading the numeral gives the identifier back), and, when a reaction
  is given, \<^verbatim>\<open>reaction\<close> as the serialization of the object that wraps it under
  the key \<^verbatim>\<open>reaction\<close>: \<^verbatim>\<open>{"reaction":{"type":"emoji","emoji":<value>}}\<close>.
\<close>

theorem setMessageReaction_payload:
  assumes "isSafeInteger message_id" and "is_ReactionTypeEmoji E reaction"
  shows \<open>(\<exists>ps. setMessageReaction_params (Some (JString chat_id)) (Some (JNumber message_id)) reaction is_big = Inr ps
            \<and> setMessageReaction fetch c (Some (JString chat_id)) (Some (JNumber message_id)) reaction is_big =
                post fetch (baseUrl c @ ''/setMessageReaction'') ps
            \<and> map_of ps ''message_id'' = Some (Number_toString message_id)
            \<and> decimal_read (Number_toString message_id) = Some message_id
            \<and> (\<forall>r. reaction = Some r \<longrightarrow>
                  map_of ps ''reaction'' = Some (JSON_stringify (JObject [(''reaction'', r)])))
            \<and> (reaction = None \<longrightarrow> map_of ps ''reaction'' = None))
         \<and> JSON_stringify (JObject [(''reaction'', JObject [(''type'', JString ''emoji''), (''emoji'', JString e)])]) =
             ''{"reaction":{"type":"emoji","emoji":'' @ QuoteJSONString e @ ''}}''\<close>
proof -
  have lit: \<open>JSON_stringify (JObject [(''reaction'', JObject [(''type'', JString ''emoji''), (''emoji'', JString e)])]) =
             ''{"reaction":{"type":"emoji","emoji":'' @ QuoteJSONString e @ ''}}''\<close>
    by (simp add: QuoteJSONString_def escape_char_def)
  from is_ReactionTypeEmoji_cases [OF assms(2)]
  have "\<exists>ps. setMessageReaction_params (Some (JString chat_id)) (Some (JNumber message_id)) reaction is_big = Inr ps
            \<and> setMessageReaction fetch c (Some (JString chat_id)) (Some (JNumber message_id)) reaction is_big =
                post fetch (baseUrl c @ ''/setMessageReaction'') ps
            \<and> map_of ps ''message_id'' = Some (Number_toString message_id)
            \<and> (\<forall>r. reaction = Some r \<longrightarrow>
                  map_of ps ''reaction'' = Some (JSON_stringify (JObject [(''reaction'', r)])))
            \<and> (reaction = None \<longrightarrow> map_of ps ''reaction'' = None)"
    by (auto simp add: setMessageReaction_params_def setMessageReaction_def toString_method_def
        ToString_jsval_def params_append_def JSON_stringify_object_def Let_def)
  with lit decimal_read_Number_toString [of message_id] show ?thesis by blast
qed

theorem setMessageReaction_payload_witness:
  \<open>isSafeInteger 45 \<and>
   is_ReactionTypeEmoji [thumbs_up] (Some (JObject [(''type'', JString ''emoji''), (''emoji'', JString thumbs_up)])) \<and>
   setMessageReaction_params (Some (JString ''123'')) (Some (JNumber 45))
     (Some (JObject [(''type'', JString ''emoji''), (''emoji'', JString thumbs_up)])) None =
     Inr [(''chat_id'', ''123''), (''message_id'', ''45''),
          (''reaction'', ''{"reaction":{"type":"emoji","emoji":"'' @ thumbs_up @ ''"}}'')] \<and>
   decimal_read ''45'' = Some 45\<close>
proof -
  have h1: "isSafeInteger 45"
    by (simp add: isSafeInteger_def MAX_SAFE_INTEGER_def)
  have h2: "is_ReactionTypeEmoji [thumbs_up]
      (Some (JObject [(''type'', JString ''emoji''), (''emoji'', JString thumbs_up)]))"
    by (simp add: is_ReactionTypeEmoji_def property_def)
  have n: "Number_toString 45 = ''45''"
    by code_simp
  have p: \<open>setMessageReaction_params (Some (JString ''123'')) (Some (JNumber 45))
     (Some (JObject [(''type'', JString ''emoji''), (''emoji'', JString thumbs_up)])) None =
     Inr [(''chat_id'', ''123''), (''message_id'', ''45''),
          (''reaction'', ''{"reaction":{"type":"emoji","emoji":"'' @ thumbs_up @ ''"}}'')]\<close>
    by (simp add: setMessageReaction_params_def toString_method_def ToString_jsval_def n
        params_append_def JSON_stringify_object_def QuoteJSONString_def escape_char_def thumbs_up_def)
  from setMessageReaction_payload [OF h1 h2, of "''123''" None failing_fetch "TelegramClient_new ''t''" thumbs_up]
  have "decimal_read (Number_toString 45) = Some 45" by blast
  with h1 h2 p n show ?thesis by simp
qed

lemma URLSearchParams_new_two:
  "URLSearchParams_new [(k1, v1), (k2, v2)] = Inr ps \<Longrightarrow>
   \<exists>s1 s2. ToString_jsval v1 = Inr s1 \<and> ToString_jsval v2 = Inr s2 \<and> ps = [(k1, s1), (k2, s2)]"
  by (auto split: sum.splits)

lemma setMessageReaction_params_Inr:
  assumes "setMessageReaction_params chat_id message_id reaction is_big = Inr ps"
  shows "\<exists>s mid. toString_method ''message_id'' message_id = Inr mid \<and> ToString_jsval chat_id = Inr s \<and>
           ps = [(''chat_id'', s), (''message_id'', mid)]
                @ (if truthy reaction
                   then [(''reaction'', JSON_stringify_object [(''reaction'', reaction)])] else [])
                @ (if truthy is_big then [(''is_big'', ''True'')] else [])"
proof -
  from assms obtain mid where mid: "toString_method ''message_id'' message_id = Inr mid"
    by (auto simp add: setMessageReaction_params_def split: sum.splits)
  with assms obtain ps0 where
    ps0: "URLSearchParams_new [(''chat_id'', chat_id), (''message_id'', Some (JString mid))] = Inr ps0"
    by (auto simp add: setMessageReaction_params_def split: sum.splits)
  from URLSearchParams_new_two [OF ps0] obtain s where
    s: "ToString_jsval chat_id = Inr s" and eq: "ps0 = [(''chat_id'', s), (''message_id'', mid)]"
    by (auto simp add: ToString_jsval_def)
  from assms mid ps0 eq have
    "ps = [(''chat_id'', s), (''message_id'', mid)]
          @ (if truthy reaction
             then [(''reaction'', JSON_stringify_object [(''reaction'', reaction)])] else [])
          @ (if truthy is_big then [(''is_big'', ''True'')] else [])"
    by (auto simp add: setMessageReaction_params_def params_append_def Let_def split: if_splits)
  with mid s show ?thesis by blast
qed

text \<open>
  Claim C10. Whenever \<^verbatim>\<open>setMessageReaction\<close> builds a payload, the key
  \<^verbatim>\<open>is_big\<close> is there exactly when the argument is truthy, and then its value is
  \<^verbatim>\<open>True\<close>: for an absent or false argument the key is left out, and the value
  \<^verbatim>\<open>False\<close> is never sent.
\<close>

theorem is_big_never_False:
  assumes "setMessageReaction_params chat_id message_id reaction is_big = Inr ps"
  shows "(''is_big'', ''False'') \<notin> set ps
         \<and> (\<forall>v. (''is_big'', v) \<in> set ps \<longrightarrow> v = ''True'')
         \<and> (''is_big'' \<in> set (map fst ps) \<longleftrightarrow> truthy is_big)
         \<and> (is_big = None \<or> is_big = Some (JBool False) \<longrightarrow> ''is_big'' \<notin> set (map fst ps))"
  using setMessageReaction_params_Inr [OF assms] by auto

theorem is_big_never_False_witness:
  "setMessageReaction_params (Some (JString ''123'')) (Some (JNumber 45)) None (Some (JBool True)) =
     Inr [(''chat_id'', ''123''), (''message_id'', ''45''), (''is_big'', ''True'')]
   \<and> (''is_big'', ''False'') \<notin> set [(''chat_id'', ''123''), (''message_id'', ''45''), (''is_big'', ''True'')]
   \<and> truthy (Some (JBool True))"
proof -
  have p: "setMessageReaction_params (Some (JString ''123'')) (Some (JNumber 45)) None (Some (JBool True)) =
     Inr [(''chat_id'', ''123''), (''message_id'', ''45''), (''is_big'', ''True'')]"
    by code_simp
  from is_big_never_False [OF p] p show ?thesis by simp
qed

text \<open>
  Claim C6. The claim wants \<^verbatim>\<open>is_big=False\<close> in the payload when the argument is
  \<^verbatim>\<open>false\<close>. The code leaves the key out then: for the chat \<^verbatim>\<open>123\<close>, the
  message 45 and \<^verbatim>\<open>is_big: false\<close> the payload has two pairs only, while
  \<^verbatim>\<open>is_big: true\<close> adds \<^verbatim>\<open>is_big=True\<close>.
\<close>

theorem is_big_false_is_omitted:
  "setMessageReaction_params (Some (JString ''123'')) (Some (JNumber 45)) None (Some (JBool False)) =
     Inr [(''chat_id'', ''123''), (''message_id'', ''45'')]
   \<and> setMessageReaction_params (Some (JString ''123'')) (Some (JNumber 45)) None (Some (JBool True)) =
     Inr [(''chat_id'', ''123''), (''message_id'', ''45''), (''is_big'', ''True'')]"
  by code_simp

section \<open>The tool registry\<close>

text \<open>
  Claim C7. The list-tools handler returns the two descriptors, named
  \<^verbatim>\<open>telegram_send_message\<close> and \<^verbatim>\<open>telegram_set_message_reaction\<close> in that
  order. The schema of the first is not consistent with the arguments the tool takes: the
  enumeration of \<^verbatim>\<open>parse_mode\<close> lists \<^verbatim>\<open>MarkdownV2\<close> with a space after it,
  which is not the mode that \<^verbatim>\<open>SendMessageArguments\<close> names, and the property
  \<^verbatim>\<open>chat_id\<close> carries \<^verbatim>\<open>required: true\<close>, a boolean where a schema lists the
  required names in an array.
\<close>

theorem list_tools_schema_slips:
  "map (\<lambda>t. at_path t [''name'']) (tools (list_tools_handler REACTION_EMOJIS)) =
     [Some (JString ''telegram_send_message''), Some (JString ''telegram_set_message_reaction'')]
   \<and> at_path sendMessageTool [''inputSchema'', ''properties'', ''parse_mode'', ''enum''] =
       Some (JArray [JString ''MarkdownV2 '', JString ''HTML''])
   \<and> JString ''MarkdownV2'' \<notin> set [JString ''MarkdownV2 '', JString ''HTML'']
   \<and> is_parse_mode (Some (JString ''MarkdownV2''))
   \<and> \<not> is_parse_mode (Some (JString ''MarkdownV2 ''))
   \<and> at_path sendMessageTool [''inputSchema'', ''properties'', ''chat_id'', ''required''] =
       Some (JBool True)"
  by (simp add: list_tools_handler_def sendMessageTool_def setMessageReactionTool_def at_path_def
      property_def is_parse_mode_def parse_modes_def)

end
